theory Spec2Isabelle
  imports Complex_Main "HOL-Library.Sublist"
begin

section \<open>Interview preparation assistant: the script \<open>app.py\<close>\<close>

text \<open>
  The program is one Streamlit script. It reads two API keys from the environment,
  renders a form with two text fields, and on submission calls a web-search provider
  (\<open>search_company_info\<close>) and a chat-completion provider
  (\<open>generate_interview_guide\<close>), rendering what they return.

  The embedding makes the script's effects explicit. Everything the script renders is
  appended to a list of user-interface events, every provider call it issues is appended
  to a list of network calls, and the two providers are parameters: functions from the
  request to what the library call raises or returns. An exception is a value
  (\<open>Inl\<close>), so each \<open>try ... except\<close> of the source is a case
  distinction, and \<open>st.stop()\<close> is the result \<open>Stopped\<close>.
\<close>

subsection \<open>Python strings\<close>

text \<open>
  A Python \<open>str\<close> is modelled by its UTF-8 encoding, a list of bytes. The
  source's literals outside ASCII (the emoji of the labels, the dash of the digest
  lines) are the byte sequences of their code points.
\<close>

definition cross_mark :: string where \<comment> \<open>U+274C\<close>
  "cross_mark = [CHR 0xE2, CHR 0x9D, CHR 0x8C]"

definition warning_sign :: string where \<comment> \<open>U+26A0 U+FE0F\<close>
  "warning_sign = [CHR 0xE2, CHR 0x9A, CHR 0xA0, CHR 0xEF, CHR 0xB8, CHR 0x8F]"

definition robot_face :: string where \<comment> \<open>U+1F916\<close>
  "robot_face = [CHR 0xF0, CHR 0x9F, CHR 0xA4, CHR 0x96]"

definition office_building :: string where \<comment> \<open>U+1F3E2\<close>
  "office_building = [CHR 0xF0, CHR 0x9F, CHR 0x8F, CHR 0xA2]"

definition briefcase :: string where \<comment> \<open>U+1F4BC\<close>
  "briefcase = [CHR 0xF0, CHR 0x9F, CHR 0x92, CHR 0xBC]"

definition magnifying_glass :: string where \<comment> \<open>U+1F50D\<close>
  "magnifying_glass = [CHR 0xF0, CHR 0x9F, CHR 0x94, CHR 0x8D]"

definition globe :: string where \<comment> \<open>U+1F310\<close>
  "globe = [CHR 0xF0, CHR 0x9F, CHR 0x8C, CHR 0x90]"

definition brain :: string where \<comment> \<open>U+1F9E0\<close>
  "brain = [CHR 0xF0, CHR 0x9F, CHR 0xA7, CHR 0xA0]"

definition check_mark :: string where \<comment> \<open>U+2705\<close>
  "check_mark = [CHR 0xE2, CHR 0x9C, CHR 0x85]"

definition blue_book :: string where \<comment> \<open>U+1F4D8\<close>
  "blue_book = [CHR 0xF0, CHR 0x9F, CHR 0x93, CHR 0x98]"

definition inbox_tray :: string where \<comment> \<open>U+1F4E5\<close>
  "inbox_tray = [CHR 0xF0, CHR 0x9F, CHR 0x93, CHR 0xA5]"

definition em_dash :: string where \<comment> \<open>U+2014\<close>
  "em_dash = [CHR 0xE2, CHR 0x80, CHR 0x94]"

text \<open>
  \<open>str.join\<close>: the elements, with the separator between each two neighbours.
\<close>

fun join :: "string \<Rightarrow> string list \<Rightarrow> string" where
  "join sep [] = []"
| "join sep [x] = x"
| "join sep (x # y # ys) = x @ sep @ join sep (y # ys)"

text \<open>
  \<open>str.strip()\<close> removes the code points for which \<open>str.isspace\<close>
  holds from both ends. These are U+0009 to U+000D, U+001C to U+0020, U+0085, U+00A0,
  U+1680, U+2000 to U+200A, U+2028, U+2029, U+202F, U+205F and U+3000; the list holds
  their encodings.
\<close>

definition whitespace :: "string list" where
  "whitespace =
    [[CHR 0x09], [CHR 0x0A], [CHR 0x0B], [CHR 0x0C], [CHR 0x0D],
     [CHR 0x1C], [CHR 0x1D], [CHR 0x1E], [CHR 0x1F], [CHR 0x20],
     [CHR 0xC2, CHR 0x85], [CHR 0xC2, CHR 0xA0],
     [CHR 0xE1, CHR 0x9A, CHR 0x80],
     [CHR 0xE2, CHR 0x80, CHR 0x80], [CHR 0xE2, CHR 0x80, CHR 0x81],
     [CHR 0xE2, CHR 0x80, CHR 0x82], [CHR 0xE2, CHR 0x80, CHR 0x83],
     [CHR 0xE2, CHR 0x80, CHR 0x84], [CHR 0xE2, CHR 0x80, CHR 0x85],
     [CHR 0xE2, CHR 0x80, CHR 0x86], [CHR 0xE2, CHR 0x80, CHR 0x87],
     [CHR 0xE2, CHR 0x80, CHR 0x88], [CHR 0xE2, CHR 0x80, CHR 0x89],
     [CHR 0xE2, CHR 0x80, CHR 0x8A],
     [CHR 0xE2, CHR 0x80, CHR 0xA8], [CHR 0xE2, CHR 0x80, CHR 0xA9],
     [CHR 0xE2, CHR 0x80, CHR 0xAF], [CHR 0xE2, CHR 0x81, CHR 0x9F],
     [CHR 0xE3, CHR 0x80, CHR 0x80]]"

text \<open>
  The number of bytes of the whitespace code point a string starts with, or ends with;
  0 when it starts, or ends, with none.
\<close>

fun leading_space :: "string list \<Rightarrow> string \<Rightarrow> nat" where
  "leading_space [] s = 0"
| "leading_space (w # ws) s = (if prefix w s then length w else leading_space ws s)"

fun trailing_space :: "string list \<Rightarrow> string \<Rightarrow> nat" where
  "trailing_space [] s = 0"
| "trailing_space (w # ws) s = (if suffix w s then length w else trailing_space ws s)"

function lstrip :: "string \<Rightarrow> string" where
  "lstrip s =
     (let n = leading_space whitespace s in if n = 0 then s else lstrip (drop n s))"
  by pat_completeness auto
termination
proof (relation "measure length")
  fix s n
  assume n: "n = leading_space whitespace s" "n \<noteq> 0"
  have "leading_space ws s \<le> length s" for ws
    by (induction ws) (auto simp: prefix_length_le)
  with n show "(drop n s, s) \<in> measure length"
    by (metis diff_less in_measure length_drop less_le_trans not_gr_zero)
qed simp

function rstrip :: "string \<Rightarrow> string" where
  "rstrip s =
     (let n = trailing_space whitespace s
      in if n = 0 then s else rstrip (take (length s - n) s))"
  by pat_completeness auto
termination
proof (relation "measure length")
  fix s n
  assume n: "n = trailing_space whitespace s" "n \<noteq> 0"
  have "trailing_space ws s \<le> length s" for ws
    by (induction ws) (auto simp: suffix_length_le)
  with n show "(take (length s - n) s, s) \<in> measure length"
    by (metis diff_less in_measure length_take less_le_trans min.absorb2 diff_le_self not_gr_zero)
qed simp

declare lstrip.simps [simp del] rstrip.simps [simp del]

definition strip :: "string \<Rightarrow> string" where
  "strip s = rstrip (lstrip s)"

text \<open>\<open>d.get(key, default)\<close> on a dictionary.\<close>

definition dict_get :: "('k \<rightharpoonup> 'v) \<Rightarrow> 'k \<Rightarrow> 'v \<Rightarrow> 'v" where
  "dict_get d k dflt = (case d k of None \<Rightarrow> dflt | Some v \<Rightarrow> v)"

subsection \<open>Providers, requests and responses\<close>

text \<open>
  An exception carries the text that \<open>str(e)\<close> prints, which the error
  messages of the source interpolate.
\<close>

datatype exn = Exception (str: string)

type_synonym 'a attempt = "exn + 'a"

text \<open>
  One search result is a dictionary; the source reads its keys \<open>title\<close>,
  \<open>link\<close> and \<open>snippet\<close>. The body of a search response is a
  dictionary whose key \<open>organic\<close> holds the list of results. The values are
  taken at the types the provider documents (strings, and a list of result objects).
\<close>

type_synonym item = "string \<rightharpoonup> string"

record post_request =
  url :: string
  headers :: "string \<rightharpoonup> string"
  json_data :: "string \<rightharpoonup> string"

text \<open>
  The response object of \<open>requests.post\<close>: its status code, the
  \<open>HTTPError\<close> that the library builds from its status line, and what its
  method \<open>json()\<close> raises or returns.
\<close>

record response =
  status_code :: nat
  http_error :: exn
  json :: "(string \<rightharpoonup> item list) attempt"

text \<open>
  The method \<open>raise_for_status()\<close> of the \<open>requests\<close> library: it
  raises the \<open>HTTPError\<close> when the status code is a client error (400 to 499)
  or a server error (500 to 599), and returns otherwise (\<open>None\<close> here: nothing
  is raised).
\<close>

definition raise_for_status :: "response \<Rightarrow> exn option" where
  "raise_for_status response =
     (if 400 \<le> status_code response \<and> status_code response < 600
      then Some (http_error response) else None)"

record chat_request =
  model :: string
  messages :: "(string \<rightharpoonup> string) list"
  temperature :: real
  max_tokens :: nat

text \<open>
  A completion holds its choices; of each choice the source reads
  \<open>message.content\<close>, which the client library types as an optional string.
\<close>

datatype choice = Choice (message_content: "string option")

datatype completion = Completion (choices: "choice list")

text \<open>
  The two external services. \<open>requests_post\<close> is \<open>requests.post\<close>
  at the request it is given; \<open>completions_create\<close> is
  \<open>client.chat.completions.create\<close> of a client built with the given API key.
\<close>

record providers =
  requests_post :: "post_request \<Rightarrow> response attempt"
  completions_create :: "string \<Rightarrow> chat_request \<Rightarrow> completion attempt"

subsection \<open>The state of one script run\<close>

datatype ui_event =
    Error string
  | Warning string
  | Success string
  | Page_config string string string
  | Title string
  | Markdown string
  | Divider
  | Form string
  | Text_input string string
  | Form_submit_button string
  | Spinner string
  | Subheader string
  | Download_button string string string string

datatype net_call =
    Search_call post_request
  | Completion_call string chat_request

record app_state =
  rendered :: "ui_event list"
  network :: "net_call list"

datatype run_end = Stopped | Finished

definition st :: "ui_event \<Rightarrow> app_state \<Rightarrow> app_state" where
  "st ev s = s\<lparr>rendered := rendered s @ [ev]\<rparr>"

definition call :: "net_call \<Rightarrow> app_state \<Rightarrow> app_state" where
  "call c s = s\<lparr>network := network s @ [c]\<rparr>"

fun is_search_call :: "net_call \<Rightarrow> bool" where
  "is_search_call (Search_call _) = True"
| "is_search_call (Completion_call _ _) = False"

fun is_completion_call :: "net_call \<Rightarrow> bool" where
  "is_completion_call (Search_call _) = False"
| "is_completion_call (Completion_call _ _) = True"

fun is_success :: "ui_event \<Rightarrow> bool" where
  "is_success (Success _) = True"
| "is_success _ = False"

fun is_download :: "ui_event \<Rightarrow> bool" where
  "is_download (Download_button _ _ _ _) = True"
| "is_download _ = False"

subsection \<open>\<open>search_company_info\<close>\<close>

text \<open>
  The body of the \<open>try\<close> block: the POST, \<open>raise_for_status()\<close>,
  \<open>json()\<close> and \<open>.get("organic", [])\<close>, each of which may raise.
\<close>

definition fetch_results :: "providers \<Rightarrow> post_request \<Rightarrow> item list attempt" where
  "fetch_results P req =
     (case requests_post P req of
        Inl e \<Rightarrow> Inl e
      | Inr response \<Rightarrow>
          (case raise_for_status response of
             Some e \<Rightarrow> Inl e
           | None \<Rightarrow>
               (case json response of
                  Inl e \<Rightarrow> Inl e
                | Inr body \<Rightarrow> Inr (dict_get body ''organic'' []))))"

definition bullet :: "item \<Rightarrow> string" where
  "bullet item =
     (let title = dict_get item ''title'' '''';
          link = dict_get item ''link'' '''';
          snippet = dict_get item ''snippet'' ''''
      in ''- ['' @ title @ '']('' @ link @ '') '' @ em_dash @ '' '' @ snippet)"

text \<open>The \<open>for\<close> loop, appending one line to \<open>summary\<close> per item.\<close>

fun summarise :: "item list \<Rightarrow> string list \<Rightarrow> string list" where
  "summarise [] summary = summary"
| "summarise (item # items) summary = summarise items (summary @ [bullet item])"

definition search_query :: "string \<Rightarrow> string \<Rightarrow> string" where
  "search_query company_name job_role =
     company_name @ '' '' @ job_role @ '' interview salary reviews company type''"

definition search_request :: "string \<Rightarrow> string \<Rightarrow> post_request" where
  "search_request SERPER_API_KEY query =
     \<lparr>url = ''https://google.serper.dev/search'',
      headers = [''X-API-KEY'' \<mapsto> SERPER_API_KEY, ''Content-Type'' \<mapsto> ''application/json''],
      json_data = [''q'' \<mapsto> query]\<rparr>"

definition search_company_info ::
  "string \<Rightarrow> providers \<Rightarrow> string \<Rightarrow> string \<Rightarrow> app_state \<Rightarrow> string \<times> app_state" where
  "search_company_info SERPER_API_KEY P company_name job_role s =
     (let query = search_query company_name job_role;
          req = search_request SERPER_API_KEY query;
          s1 = call (Search_call req) s
      in case fetch_results P req of
           Inl e \<Rightarrow>
             ('''', st (Error (warning_sign @ '' Error fetching company info: '' @ str e)) s1)
         | Inr results \<Rightarrow>
             if results = [] then (''No relevant info found.'', s1)
             else (join ''\<newline>'' (summarise (take 6 results) []), s1))"

subsection \<open>\<open>generate_interview_guide\<close>\<close>

text \<open>The constant text of the prompt template, between its placeholders.\<close>

definition prompt_text_1 :: string where
  "prompt_text_1 =
     ''\<newline>'' @
     ''    You are an expert interview coach and career mentor helping a candidate prepare for a **''"

definition prompt_text_2 :: string where
  "prompt_text_2 =
     ''** role at **''"

definition prompt_text_3 :: string where
  "prompt_text_3 =
     ''**.\<newline>'' @
     ''\<newline>'' @
     ''    Below are verified facts collected from online research:\<newline>'' @
     ''    ''"

definition prompt_text_4 :: string where
  "prompt_text_4 =
     ''\<newline>'' @
     ''\<newline>'' @
     ''    ### Task\<newline>'' @
     ''    Create a **comprehensive interview preparation guide** in **Markdown format** with **clear headings, bullet points, and clickable links**.\<newline>'' @
     ''\<newline>'' @
     ''    ### Content Requirements\<newline>'' @
     ''    Cover the following sections **in detail**:\<newline>'' @
     ''\<newline>'' @
     ''    ## 1. Company Overview\<newline>'' @
     ''    - What ''"

definition prompt_text_5 :: string where
  "prompt_text_5 =
     '' does (products, services, domain)\<newline>'' @
     ''    - Business model and target customers\<newline>'' @
     ''    - Company culture, mission, and recent achievements (if available)\<newline>'' @
     ''\<newline>'' @
     ''    ## 2. Salary Expectations (India)\<newline>'' @
     ''    - Average salary range for **''"

definition prompt_text_6 :: string where
  "prompt_text_6 =
     ''** in India\<newline>'' @
     ''    - Entry-level, mid-level, and senior-level estimates\<newline>'' @
     ''    - Mention sources (e.g., Glassdoor, AmbitionBox, Levels.fyi) with **links**\<newline>'' @
     ''\<newline>'' @
     ''    ## 3. Company Locations\<newline>'' @
     ''    - Headquarters location\<newline>'' @
     ''    - Major offices in India and globally\<newline>'' @
     ''    - Remote / hybrid work availability (if known)\<newline>'' @
     ''\<newline>'' @
     ''    ## 4. Company Reviews & Work Culture\<newline>'' @
     ''    - Summary of employee reviews\<newline>'' @
     ''    - Pros and cons mentioned by employees\<newline>'' @
     ''    - Ratings from websites like:\<newline>'' @
     ''      - Glassdoor\<newline>'' @
     ''      - AmbitionBox\<newline>'' @
     ''      - Indeed  \<newline>'' @
     ''      (Include **direct links**)\<newline>'' @
     ''\<newline>'' @
     ''    ## 5. Frequently Asked Interview Questions (Role-Specific)\<newline>'' @
     ''    - Technical questions related to **''"

definition prompt_text_7 :: string where
  "prompt_text_7 =
     ''**\<newline>'' @
     ''    - Behavioral questions (HR round)\<newline>'' @
     ''    - Managerial / scenario-based questions\<newline>'' @
     ''    - Coding / system design / case study questions (if applicable)\<newline>'' @
     ''\<newline>'' @
     ''    ## 6. Preparation Resources & Practice Websites\<newline>'' @
     ''    Provide **clickable links** under each category:\<newline>'' @
     ''\<newline>'' @
     ''    ### Technical Preparation\<newline>'' @
     ''    - Official documentation\<newline>'' @
     ''    - Tutorials, blogs, or courses\<newline>'' @
     ''    - GitHub repositories (if relevant)\<newline>'' @
     ''\<newline>'' @
     ''    ### Coding & Practice Platforms\<newline>'' @
     ''    - LeetCode\<newline>'' @
     ''    - HackerRank\<newline>'' @
     ''    - CodeChef\<newline>'' @
     ''    - GeeksforGeeks\<newline>'' @
     ''\<newline>'' @
     ''    ### Interview Experience & Company-Specific Prep\<newline>'' @
     ''    - Glassdoor interview experiences\<newline>'' @
     ''    - AmbitionBox interview questions\<newline>'' @
     ''    - Reddit / Medium posts (if relevant)\<newline>'' @
     ''\<newline>'' @
     ''    ## 7. Final Summary (Easy-to-Understand)\<newline>'' @
     ''    Conclude with **simple bullet points** covering:\<newline>'' @
     ''    - What to focus on before the interview\<newline>'' @
     ''    - How to prepare in the last 7 days\<newline>'' @
     ''    - Key tips to stand out in the interview\<newline>'' @
     ''\<newline>'' @
     ''    ### Style Guidelines\<newline>'' @
     ''    - Use clear Markdown headings (##, ###)\<newline>'' @
     ''    - Keep explanations simple and beginner-friendly\<newline>'' @
     ''    - Ensure all external references are **clickable links**\<newline>'' @
     ''    - Maintain a professional yet motivating tone\<newline>'' @
     ''\<newline>''"

definition prompt :: "string \<Rightarrow> string \<Rightarrow> string \<Rightarrow> string" where
  "prompt company_name job_role facts =
     prompt_text_1 @ job_role @ prompt_text_2 @ company_name @ prompt_text_3 @ facts @
     prompt_text_4 @ company_name @ prompt_text_5 @ job_role @ prompt_text_6 @ job_role @
     prompt_text_7"

definition chat :: "string \<Rightarrow> chat_request" where
  "chat content =
     \<lparr>model = ''llama-3.3-70b-versatile'',
      messages = [[''role'' \<mapsto> ''user'', ''content'' \<mapsto> content]],
      temperature = 0.6,
      max_tokens = 1024\<rparr>"

text \<open>
  The expression \<open>completion.choices[0].message.content.strip()\<close>: indexing an
  empty list raises \<open>IndexError\<close>, and \<open>None\<close> has no method
  \<open>strip\<close>.
\<close>

definition completion_text :: "completion \<Rightarrow> string attempt" where
  "completion_text completion =
     (case choices completion of
        [] \<Rightarrow> Inl (Exception ''list index out of range'')
      | c # _ \<Rightarrow>
          (case message_content c of
             None \<Rightarrow>
               Inl (Exception ([CHR 0x27] @ ''NoneType'' @ [CHR 0x27] @
                                '' object has no attribute '' @ [CHR 0x27] @ ''strip'' @ [CHR 0x27]))
           | Some content \<Rightarrow> Inr (strip content)))"

definition generate_interview_guide ::
  "string \<Rightarrow> providers \<Rightarrow> string \<Rightarrow> string \<Rightarrow> string \<Rightarrow> app_state \<Rightarrow> string \<times> app_state" where
  "generate_interview_guide GROQ_API_KEY P company_name job_role facts s =
     (let req = chat (prompt company_name job_role facts);
          s1 = call (Completion_call GROQ_API_KEY req) s;
          failed = (\<lambda>e. ('''', st (Error (warning_sign @ '' Error generating guide: '' @ str e)) s1))
      in case completions_create P GROQ_API_KEY req of
           Inl e \<Rightarrow> failed e
         | Inr completion \<Rightarrow>
             (case completion_text completion of
                Inl e \<Rightarrow> failed e
              | Inr guide \<Rightarrow> (guide, s1)))"

subsection \<open>The script\<close>

text \<open>
  What the user did in the form: the contents of the two text fields, and whether the
  submit button was pressed.
\<close>

record form_input =
  company_field :: string
  role_field :: string
  submitted :: bool

text \<open>\<open>not v\<close> for the result of \<open>os.getenv\<close>: \<open>None\<close> or a string.\<close>

definition py_not :: "string option \<Rightarrow> bool" where
  "py_not v = (case v of None \<Rightarrow> True | Some k \<Rightarrow> k = '''')"

definition download_name :: "string \<Rightarrow> string \<Rightarrow> string" where
  "download_name company_name job_role =
     company_name @ ''_'' @ job_role @ ''_Interview_Guide.txt''"

text \<open>The body of \<open>if submitted:\<close>.\<close>

definition on_submit ::
  "string \<Rightarrow> string \<Rightarrow> providers \<Rightarrow> string \<Rightarrow> string \<Rightarrow> app_state \<Rightarrow> run_end \<times> app_state" where
  "on_submit GROQ_API_KEY SERPER_API_KEY P company_name job_role s =
     (if company_name = '''' \<or> job_role = '''' then
        (Stopped,
         st (Warning (warning_sign @ '' Please enter both a company name and a job role.'')) s)
      else
        let s1 = st (Spinner (magnifying_glass @ '' Searching the web for company details...'')) s;
            (facts, s2) = search_company_info SERPER_API_KEY P company_name job_role s1
        in if facts = '''' then
             (Stopped, st (Warning ''No data found to generate guide.'') s2)
           else
             let s3 = st (Subheader (globe @ '' Web Insights'')) s2;
                 s4 = st (Markdown facts) s3;
                 s5 = st (Spinner (brain @ '' Generating your AI-based interview preparation guide...'')) s4;
                 (guide, s6) = generate_interview_guide GROQ_API_KEY P company_name job_role facts s5
             in if guide \<noteq> '''' then
                  let s7 = st (Success (check_mark @ '' Interview Preparation Guide Generated!'')) s6;
                      s8 = st (Subheader (blue_book @ '' AI Interview Guide'')) s7;
                      s9 = st (Markdown guide) s8;
                      s10 = st (Download_button (inbox_tray @ '' Download Guide as Text'') guide
                                  (download_name company_name job_role) ''text/plain'') s9
                  in (Finished, s10)
                else (Finished, s6))"

text \<open>The page above the handler: configuration, title, and the input form.\<close>

definition page :: "app_state \<Rightarrow> app_state" where
  "page s =
     (let s1 = st (Page_config ''Interview Prep AI'' robot_face ''wide'') s;
          s2 = st (Title (robot_face @ '' AI Interview Preparation Assistant'')) s1;
          s3 = st (Markdown ''This app used to know details about the Job and company reviews'') s2;
          s4 = st Divider s3;
          s5 = st (Form ''input_form'') s4;
          s6 = st (Text_input (office_building @ '' Company Name'') ''e.g., Google'') s5;
          s7 = st (Text_input (briefcase @ '' Job Role'') ''e.g., Data Scientist'') s6
      in st (Form_submit_button ''Generate Interview Guide'') s7)"

text \<open>
  One run of the script, from the environment (after \<open>load_dotenv()\<close>), the
  providers and the form input.
\<close>

definition app :: "(string \<rightharpoonup> string) \<Rightarrow> providers \<Rightarrow> form_input \<Rightarrow> run_end \<times> app_state" where
  "app environ P form =
     (let GROQ_API_KEY = environ ''GROQ_API_KEY'';
          SERPER_API_KEY = environ ''SERPER_API_KEY'';
          s = \<lparr>rendered = [], network = []\<rparr>
      in if py_not GROQ_API_KEY \<or> py_not SERPER_API_KEY then
           (Stopped, st (Error (cross_mark @ '' Missing API keys! Please check your .env file.'')) s)
         else
           let s1 = page s
           in if submitted form then
                on_submit (the GROQ_API_KEY) (the SERPER_API_KEY) P
                  (company_field form) (role_field form) s1
              else (Finished, s1))"

subsection \<open>What the two operations return\<close>

text \<open>
  The string that \<open>search_company_info\<close> returns (the digest) and the string that
  \<open>generate_interview_guide\<close> returns (the guide). Neither depends on the state
  the operation starts in, so they are read off a run from the empty state.
\<close>

definition facts_of :: "string \<Rightarrow> providers \<Rightarrow> string \<Rightarrow> string \<Rightarrow> string" where
  "facts_of k P c r = fst (search_company_info k P c r \<lparr>rendered = [], network = []\<rparr>)"

definition guide_of :: "string \<Rightarrow> providers \<Rightarrow> string \<Rightarrow> string \<Rightarrow> string \<Rightarrow> string" where
  "guide_of g P c r f =
     fst (generate_interview_guide g P c r f \<lparr>rendered = [], network = []\<rparr>)"

text \<open>
  The search call fails: \<open>requests.post\<close> raises (a transport error), or the
  response has an error status, from 400 to 599.
\<close>

definition search_call_fails :: "providers \<Rightarrow> post_request \<Rightarrow> bool" where
  "search_call_fails P req =
     (case requests_post P req of
        Inl e \<Rightarrow> True
      | Inr response \<Rightarrow> 400 \<le> status_code response \<and> status_code response < 600)"

text \<open>The state a script run starts in: nothing rendered, no call made.\<close>

definition init :: app_state where
  "init = \<lparr>rendered = [], network = []\<rparr>"

subsection \<open>Example providers\<close>

text \<open>
  Concrete providers for evaluating the script: a search that cannot connect, a search
  that answers with a given body, a completion service that is down, and one that
  answers with a given text.
\<close>

definition search_unreachable :: "post_request \<Rightarrow> response attempt" where
  "search_unreachable req = Inl (Exception ''Connection refused'')"

definition search_answers :: "(string \<rightharpoonup> item list) \<Rightarrow> post_request \<Rightarrow> response attempt" where
  "search_answers body req =
     Inr \<lparr>status_code = 200, http_error = Exception '''', json = Inr body\<rparr>"

definition completion_down :: "string \<Rightarrow> chat_request \<Rightarrow> completion attempt" where
  "completion_down key req = Inl (Exception ''Service unavailable'')"

definition completion_answers :: "string \<Rightarrow> string \<Rightarrow> chat_request \<Rightarrow> completion attempt" where
  "completion_answers content key req = Inr (Completion [Choice (Some content)])"

definition two_hits :: "item list" where
  "two_hits =
     [[''title'' \<mapsto> ''Acme careers'', ''link'' \<mapsto> ''https://acme.example/jobs'',
       ''snippet'' \<mapsto> ''Open roles''],
      [''title'' \<mapsto> ''Acme reviews'']]"

definition search_offline :: providers where
  "search_offline =
     \<lparr>requests_post = search_unreachable,
      completions_create = completion_answers ''## Guide text''\<rparr>"

definition all_up :: providers where
  "all_up =
     \<lparr>requests_post = search_answers [''organic'' \<mapsto> two_hits],
      completions_create = completion_answers ''## Guide text''\<rparr>"

definition guide_offline :: providers where
  "guide_offline =
     \<lparr>requests_post = search_answers [''organic'' \<mapsto> two_hits],
      completions_create = completion_down\<rparr>"

definition guide_blank :: providers where
  "guide_blank =
     \<lparr>requests_post = search_answers [''organic'' \<mapsto> two_hits],
      completions_create = completion_answers ''  \<newline>''\<rparr>"

definition two_hits_digest :: string where
  "two_hits_digest =
     ''- [Acme careers](https://acme.example/jobs) '' @ em_dash @ '' Open roles\<newline>'' @
     ''- [Acme reviews]() '' @ em_dash @ '' ''"

definition search_forbidden :: providers where
  "search_forbidden =
     \<lparr>requests_post =
        (\<lambda>req. Inr \<lparr>status_code = 403,
                      http_error = Exception ''403 Client Error: Forbidden'',
                      json = Inr [''organic'' \<mapsto> two_hits]\<rparr>),
      completions_create = completion_answers ''## Guide text''\<rparr>"

definition search_redirected :: providers where
  "search_redirected =
     \<lparr>requests_post =
        (\<lambda>req. Inr \<lparr>status_code = 300,
                      http_error = Exception ''300 Multiple Choices'',
                      json = Inr [''organic'' \<mapsto> two_hits]\<rparr>),
      completions_create = completion_answers ''## Guide text''\<rparr>"

definition hit :: "string \<Rightarrow> item" where
  "hit n = [''title'' \<mapsto> ''T'' @ n, ''link'' \<mapsto> ''https://e.x/'' @ n, ''snippet'' \<mapsto> ''S'' @ n]"

definition seven_hits :: "item list" where
  "seven_hits =
     [hit ''1'', hit ''2'', [''title'' \<mapsto> ''T3''], hit ''4'', hit ''5'', hit ''6'', hit ''7'']"

section \<open>Properties\<close>

subsection \<open>Effects of the operations on the state\<close>

lemma network_st [simp]: "network (st ev s) = network s"
  by (simp add: st_def)

lemma rendered_st [simp]: "rendered (st ev s) = rendered s @ [ev]"
  by (simp add: st_def)

lemma network_call [simp]: "network (call c s) = network s @ [c]"
  by (simp add: call_def)

lemma rendered_call [simp]: "rendered (call c s) = rendered s"
  by (simp add: call_def)

lemma network_page [simp]: "network (page s) = network s"
  by (simp add: page_def Let_def)

lemma summarise_map: "summarise items summary = summary @ map bullet items"
  by (induction items arbitrary: summary) simp_all

lemma fst_search: "fst (search_company_info k P c r s) = facts_of k P c r"
  by (simp add: facts_of_def search_company_info_def Let_def split: sum.splits)

lemma network_search:
  "network (snd (search_company_info k P c r s)) =
     network s @ [Search_call (search_request k (search_query c r))]"
  by (simp add: search_company_info_def Let_def split: sum.splits)

lemma snd_search_ok:
  "facts_of k P c r \<noteq> '''' \<Longrightarrow>
     snd (search_company_info k P c r s) =
       call (Search_call (search_request k (search_query c r))) s"
  by (simp add: facts_of_def search_company_info_def Let_def split: sum.splits if_splits)

lemma fst_generate: "fst (generate_interview_guide g P c r f s) = guide_of g P c r f"
  by (simp add: guide_of_def generate_interview_guide_def Let_def split: sum.splits)

lemma network_generate:
  "network (snd (generate_interview_guide g P c r f s)) =
     network s @ [Completion_call g (chat (prompt c r f))]"
  by (simp add: generate_interview_guide_def Let_def split: sum.splits)

lemma snd_generate_ok:
  "guide_of g P c r f \<noteq> '''' \<Longrightarrow>
     snd (generate_interview_guide g P c r f s) =
       call (Completion_call g (chat (prompt c r f))) s"
  by (simp add: guide_of_def generate_interview_guide_def Let_def split: sum.splits)

lemma rendered_generate:
  "\<exists>errors. rendered (snd (generate_interview_guide g P c r f s)) = rendered s @ errors
     \<and> (\<forall>ev \<in> set errors. \<exists>m. ev = Error m)"
  by (simp add: generate_interview_guide_def Let_def split: sum.splits)

subsection \<open>The branches of the submit handler\<close>

lemma on_submit_rejected:
  "c = '''' \<or> r = '''' \<Longrightarrow>
     on_submit g k P c r s =
       (Stopped,
        st (Warning (warning_sign @ '' Please enter both a company name and a job role.'')) s)"
  by (auto simp: on_submit_def)

lemma on_submit_search_failed:
  "c \<noteq> '''' \<Longrightarrow> r \<noteq> '''' \<Longrightarrow> facts_of k P c r = '''' \<Longrightarrow>
     on_submit g k P c r s =
       (Stopped,
        st (Warning ''No data found to generate guide.'')
          (snd (search_company_info k P c r
             (st (Spinner (magnifying_glass @ '' Searching the web for company details...'')) s))))"
  by (simp add: on_submit_def Let_def split_def fst_search)

lemma on_submit_generated:
  "c \<noteq> '''' \<Longrightarrow> r \<noteq> '''' \<Longrightarrow> facts_of k P c r = f \<Longrightarrow> f \<noteq> '''' \<Longrightarrow>
     on_submit g k P c r s =
       (let s5 = st (Spinner (brain @ '' Generating your AI-based interview preparation guide...''))
                   (st (Markdown f)
                     (st (Subheader (globe @ '' Web Insights''))
                       (call (Search_call (search_request k (search_query c r)))
                         (st (Spinner (magnifying_glass @ '' Searching the web for company details...'')) s))));
            guide = guide_of g P c r f
        in if guide = '''' then (Finished, snd (generate_interview_guide g P c r f s5))
           else (Finished,
                 st (Download_button (inbox_tray @ '' Download Guide as Text'') guide
                       (download_name c r) ''text/plain'')
                   (st (Markdown guide)
                     (st (Subheader (blue_book @ '' AI Interview Guide''))
                       (st (Success (check_mark @ '' Interview Preparation Guide Generated!''))
                         (call (Completion_call g (chat (prompt c r f))) s5))))))"
  by (simp add: on_submit_def Let_def split_def fst_search fst_generate snd_search_ok
      snd_generate_ok)

lemma app_run:
  "app environ P form =
     (if py_not (environ ''GROQ_API_KEY'') \<or> py_not (environ ''SERPER_API_KEY'') then
        (Stopped, st (Error (cross_mark @ '' Missing API keys! Please check your .env file.'')) init)
      else if submitted form then
        on_submit (the (environ ''GROQ_API_KEY'')) (the (environ ''SERPER_API_KEY'')) P
          (company_field form) (role_field form) (page init)
      else (Finished, page init))"
  by (simp add: app_def init_def Let_def)

subsection \<open>The example providers, evaluated\<close>

lemma facts_of_two_hits:
  "requests_post P = search_answers [''organic'' \<mapsto> two_hits] \<Longrightarrow>
     facts_of k P c r = two_hits_digest"
  by (simp add: facts_of_def search_company_info_def fetch_results_def search_answers_def
      raise_for_status_def dict_get_def Let_def two_hits_def two_hits_digest_def bullet_def)

lemma two_hits_digest_nonempty: "two_hits_digest \<noteq> ''''"
  by (simp add: two_hits_digest_def)

lemma guide_of_down:
  "completions_create P = completion_down \<Longrightarrow> guide_of g P c r f = ''''"
  by (simp add: guide_of_def generate_interview_guide_def completion_down_def Let_def)

lemma strip_examples:
  "strip ''## Guide text'' = ''## Guide text''" "strip ''  \<newline>'' = ''''"
  by code_simp+

lemma guide_of_answers:
  "completions_create P = completion_answers content \<Longrightarrow> guide_of g P c r f = strip content"
  by (simp add: guide_of_def generate_interview_guide_def completion_answers_def
      completion_text_def Let_def)

subsection \<open>Joining lines\<close>

lemma join_terminated:
  "xs \<noteq> [] \<Longrightarrow> join sep xs @ sep = concat (map (\<lambda>x. x @ sep) xs)"
  by (induction sep xs rule: join.induct) simp_all

subsection \<open>Claims about the search step\<close>

text \<open>
  C1, amended. For every request in which the search provider call fails, that is, the
  POST raises (a transport error) or the response has an error status, from 400 to 599,
  on which the status check raises, \<open>search_company_info\<close> returns the
  empty string, and \<open>generate_interview_guide\<close> is never invoked for that
  request: the handler adds no completion call to the calls already made, and with both
  fields filled in it stops after the single search call. In a whole script run under
  that search key, no completion call is made at all.
\<close>

theorem search_failure_aborts:
  assumes "search_call_fails P (search_request k (search_query c r))"
  shows "fst (search_company_info k P c r s) = '''' \<and>
         filter is_completion_call (network (snd (on_submit g k P c r s))) =
           filter is_completion_call (network s) \<and>
         (c \<noteq> '''' \<and> r \<noteq> '''' \<longrightarrow>
            fst (on_submit g k P c r s) = Stopped \<and>
            network (snd (on_submit g k P c r s)) =
              network s @ [Search_call (search_request k (search_query c r))]) \<and>
         (environ ''SERPER_API_KEY'' = Some k \<longrightarrow>
            filter is_completion_call
              (network (snd (app environ P
                 \<lparr>company_field = c, role_field = r, submitted = b\<rparr>))) = [])"
proof -
  have raised: "\<exists>e. fetch_results P (search_request k (search_query c r)) = Inl e"
    using assms
    by (auto simp: search_call_fails_def fetch_results_def raise_for_status_def split: sum.splits)
  then have empty: "facts_of k P c r = ''''"
    by (auto simp: facts_of_def search_company_info_def Let_def)
  have handler: "filter is_completion_call (network (snd (on_submit g k P c r s'))) =
      filter is_completion_call (network s')" for g s'
  proof (cases "c = '''' \<or> r = ''''")
    case True
    then show ?thesis by (simp add: on_submit_rejected)
  next
    case False
    then show ?thesis by (simp add: on_submit_search_failed empty network_search)
  qed
  have stops: "fst (on_submit g k P c r s) = Stopped \<and>
      network (snd (on_submit g k P c r s)) =
        network s @ [Search_call (search_request k (search_query c r))]"
    if "c \<noteq> ''''" "r \<noteq> ''''"
    using that by (simp add: on_submit_search_failed empty network_search)
  have run: "filter is_completion_call
      (network (snd (app environ P \<lparr>company_field = c, role_field = r, submitted = b\<rparr>))) = []"
    if "environ ''SERPER_API_KEY'' = Some k"
    using that by (simp add: app_run handler init_def)
  from empty handler stops run show ?thesis
    by (simp add: fst_search)
qed

theorem search_failure_aborts_witness:
  "search_call_fails search_offline
     (search_request ''serper-key'' (search_query ''Acme'' ''Engineer'')) \<and>
   fst (search_company_info ''serper-key'' search_offline ''Acme'' ''Engineer'' init) = '''' \<and>
   fst (on_submit ''groq-key'' ''serper-key'' search_offline ''Acme'' ''Engineer'' init) = Stopped \<and>
   network (snd (on_submit ''groq-key'' ''serper-key'' search_offline ''Acme'' ''Engineer'' init)) =
     [Search_call (search_request ''serper-key'' (search_query ''Acme'' ''Engineer''))] \<and>
   search_call_fails search_forbidden
     (search_request ''serper-key'' (search_query ''Acme'' ''Engineer'')) \<and>
   fst (search_company_info ''serper-key'' search_forbidden ''Acme'' ''Engineer'' init) = '''' \<and>
   network (snd (on_submit ''groq-key'' ''serper-key'' search_forbidden ''Acme'' ''Engineer'' init)) =
     [Search_call (search_request ''serper-key'' (search_query ''Acme'' ''Engineer''))]"
proof -
  have offline: "search_call_fails search_offline
      (search_request ''serper-key'' (search_query ''Acme'' ''Engineer''))"
    by (simp add: search_call_fails_def search_offline_def search_unreachable_def)
  have forbidden: "search_call_fails search_forbidden
      (search_request ''serper-key'' (search_query ''Acme'' ''Engineer''))"
    by (simp add: search_call_fails_def search_forbidden_def)
  from offline forbidden
    search_failure_aborts [OF offline, of init "''groq-key''"]
    search_failure_aborts [OF forbidden, of init "''groq-key''"]
  show ?thesis by (simp add: init_def)
qed

text \<open>
  The status check does not stop every answer outside 200 to 299. An answer with
  status 300 and a JSON body passes it: the digest is built from the body, and the
  handler goes on to the completion call. So a failure of the search call cannot be
  read as any status other than 2xx.
\<close>

theorem redirect_status_counterexample:
  "requests_post search_redirected
     (search_request ''serper-key'' (search_query ''Acme'' ''Engineer'')) =
     Inr \<lparr>status_code = 300, http_error = Exception ''300 Multiple Choices'',
          json = Inr [''organic'' \<mapsto> two_hits]\<rparr> \<and>
   fst (search_company_info ''serper-key'' search_redirected ''Acme'' ''Engineer'' init) =
     ''- [Acme careers](https://acme.example/jobs) '' @ [CHR 0xE2, CHR 0x80, CHR 0x94] @
     '' Open roles\<newline>'' @ ''- [Acme reviews]() '' @ [CHR 0xE2, CHR 0x80, CHR 0x94] @ '' '' \<and>
   fst (search_company_info ''serper-key'' search_redirected ''Acme'' ''Engineer'' init) \<noteq> '''' \<and>
   fst (on_submit ''groq-key'' ''serper-key'' search_redirected ''Acme'' ''Engineer'' init) =
     Finished \<and>
   filter is_completion_call
     (network (snd (on_submit ''groq-key'' ''serper-key'' search_redirected
        ''Acme'' ''Engineer'' init))) =
     [Completion_call ''groq-key'' (chat (prompt ''Acme'' ''Engineer'' two_hits_digest))]"
proof -
  have facts: "facts_of ''serper-key'' search_redirected ''Acme'' ''Engineer'' = two_hits_digest"
    by (simp add: facts_of_def search_company_info_def fetch_results_def search_redirected_def
        raise_for_status_def dict_get_def Let_def two_hits_def two_hits_digest_def bullet_def)
  have handler: "fst (on_submit ''groq-key'' ''serper-key'' search_redirected ''Acme'' ''Engineer'' init) =
      Finished"
    "network (snd (on_submit ''groq-key'' ''serper-key'' search_redirected ''Acme'' ''Engineer'' init)) =
      [Search_call (search_request ''serper-key'' (search_query ''Acme'' ''Engineer'')),
       Completion_call ''groq-key'' (chat (prompt ''Acme'' ''Engineer'' two_hits_digest))]"
    using facts two_hits_digest_nonempty
    by (simp_all add: on_submit_generated [where f = two_hits_digest] Let_def network_generate
        init_def)
  from facts handler show ?thesis
    by (simp add: fst_search search_redirected_def two_hits_digest_def em_dash_def)
qed

text \<open>
  C2. For every successful search response whose \<open>organic\<close> list has
  \<open>N \<ge> 1\<close> entries, the digest is \<open>min N 6\<close> lines joined by newlines,
  one per result in the provider's order: followed by one more newline, the digest is
  these lines, each ended by a newline. The line of a result is
  \<open>- [title](link)\<close>, a space, the dash U+2014 (the bytes E2 80 94), a space and
  the snippet, with the empty string for an absent field.
\<close>

theorem digest_of_results:
  assumes "requests_post P (search_request k (search_query c r)) = Inr response"
    and "raise_for_status response = None"
    and "json response = Inr body"
    and "body ''organic'' = Some results"
    and "results \<noteq> []"
  shows "\<exists>lines.
           fst (search_company_info k P c r s) @ ''\<newline>'' =
             concat (map (\<lambda>line. line @ ''\<newline>'') lines) \<and>
           length lines = min (length results) 6 \<and>
           (\<forall>i < length lines.
              lines ! i =
                ''- ['' @ (case (results ! i) ''title'' of None \<Rightarrow> '''' | Some t \<Rightarrow> t) @
                '']('' @ (case (results ! i) ''link'' of None \<Rightarrow> '''' | Some l \<Rightarrow> l) @
                '') '' @ [CHR 0xE2, CHR 0x80, CHR 0x94] @ '' '' @
                (case (results ! i) ''snippet'' of None \<Rightarrow> '''' | Some t \<Rightarrow> t))"
proof (intro exI conjI)
  let ?lines = "map bullet (take 6 results)"
  have "fetch_results P (search_request k (search_query c r)) = Inr results"
    using assms by (simp add: fetch_results_def dict_get_def)
  with \<open>results \<noteq> []\<close>
  have "fst (search_company_info k P c r s) = join ''\<newline>'' ?lines"
    by (simp add: search_company_info_def Let_def summarise_map)
  moreover from \<open>results \<noteq> []\<close> have "?lines \<noteq> []"
    by simp
  ultimately
  show "fst (search_company_info k P c r s) @ ''\<newline>'' =
      concat (map (\<lambda>line. line @ ''\<newline>'') ?lines)"
    by (simp add: join_terminated)
  show "length ?lines = min (length results) 6"
    by simp
  show "\<forall>i < length ?lines.
          ?lines ! i =
            ''- ['' @ (case (results ! i) ''title'' of None \<Rightarrow> '''' | Some t \<Rightarrow> t) @
            '']('' @ (case (results ! i) ''link'' of None \<Rightarrow> '''' | Some l \<Rightarrow> l) @
            '') '' @ [CHR 0xE2, CHR 0x80, CHR 0x94] @ '' '' @
            (case (results ! i) ''snippet'' of None \<Rightarrow> '''' | Some t \<Rightarrow> t)"
    by (simp add: bullet_def dict_get_def Let_def em_dash_def)
qed

theorem digest_of_results_witness:
  "requests_post \<lparr>requests_post = search_answers [''organic'' \<mapsto> seven_hits],
                   completions_create = completion_down\<rparr>
     (search_request ''serper-key'' (search_query ''Acme'' ''Engineer'')) =
     Inr \<lparr>status_code = 200, http_error = Exception '''',
          json = Inr [''organic'' \<mapsto> seven_hits]\<rparr> \<and>
   length seven_hits = 7 \<and>
   fst (search_company_info ''serper-key''
          \<lparr>requests_post = search_answers [''organic'' \<mapsto> seven_hits],
           completions_create = completion_down\<rparr> ''Acme'' ''Engineer'' init) =
     ''- [T1](https://e.x/1) '' @ [CHR 0xE2, CHR 0x80, CHR 0x94] @ '' S1\<newline>'' @
     ''- [T2](https://e.x/2) '' @ [CHR 0xE2, CHR 0x80, CHR 0x94] @ '' S2\<newline>'' @
     ''- [T3]() '' @ [CHR 0xE2, CHR 0x80, CHR 0x94] @ '' \<newline>'' @
     ''- [T4](https://e.x/4) '' @ [CHR 0xE2, CHR 0x80, CHR 0x94] @ '' S4\<newline>'' @
     ''- [T5](https://e.x/5) '' @ [CHR 0xE2, CHR 0x80, CHR 0x94] @ '' S5\<newline>'' @
     ''- [T6](https://e.x/6) '' @ [CHR 0xE2, CHR 0x80, CHR 0x94] @ '' S6''"
proof -
  let ?body = "[''organic'' \<mapsto> seven_hits]"
  let ?P = "\<lparr>requests_post = search_answers ?body, completions_create = completion_down\<rparr>"
  let ?response = "\<lparr>status_code = 200, http_error = Exception '''', json = Inr ?body\<rparr>"
  let ?digest = "fst (search_company_info ''serper-key'' ?P ''Acme'' ''Engineer'' init)"
  have post: "requests_post ?P (search_request ''serper-key'' (search_query ''Acme'' ''Engineer'')) =
      Inr ?response"
    by (simp add: search_answers_def)
  have status: "raise_for_status ?response = None"
    by (simp add: raise_for_status_def)
  have body: "json ?response = Inr ?body" and organic: "?body ''organic'' = Some seven_hits"
    by simp_all
  have seven: "length seven_hits = 7"
    by (simp add: seven_hits_def)
  then have hits: "seven_hits \<noteq> []"
    by auto
  from digest_of_results [OF post status body organic hits, of init]
  obtain lines where
    digest: "?digest @ ''\<newline>'' = concat (map (\<lambda>line. line @ ''\<newline>'') lines)"
    and len: "length lines = min (length seven_hits) 6"
    and line: "\<forall>i < length lines.
        lines ! i =
          ''- ['' @ (case (seven_hits ! i) ''title'' of None \<Rightarrow> '''' | Some t \<Rightarrow> t) @
          '']('' @ (case (seven_hits ! i) ''link'' of None \<Rightarrow> '''' | Some l \<Rightarrow> l) @
          '') '' @ [CHR 0xE2, CHR 0x80, CHR 0x94] @ '' '' @
          (case (seven_hits ! i) ''snippet'' of None \<Rightarrow> '''' | Some t \<Rightarrow> t)"
    by blast
  from len seven have six: "length lines = 6"
    by simp
  then have "lines = [lines ! 0, lines ! 1, lines ! 2, lines ! 3, lines ! 4, lines ! 5]"
    by (intro nth_equalityI) (auto simp: less_Suc_eq numeral_eq_Suc nth_Cons')
  moreover from line six have
    "lines ! 0 = ''- [T1](https://e.x/1) '' @ [CHR 0xE2, CHR 0x80, CHR 0x94] @ '' S1''"
    "lines ! 1 = ''- [T2](https://e.x/2) '' @ [CHR 0xE2, CHR 0x80, CHR 0x94] @ '' S2''"
    "lines ! 2 = ''- [T3]() '' @ [CHR 0xE2, CHR 0x80, CHR 0x94] @ '' ''"
    "lines ! 3 = ''- [T4](https://e.x/4) '' @ [CHR 0xE2, CHR 0x80, CHR 0x94] @ '' S4''"
    "lines ! 4 = ''- [T5](https://e.x/5) '' @ [CHR 0xE2, CHR 0x80, CHR 0x94] @ '' S5''"
    "lines ! 5 = ''- [T6](https://e.x/6) '' @ [CHR 0xE2, CHR 0x80, CHR 0x94] @ '' S6''"
    by (simp_all add: seven_hits_def hit_def)
  ultimately have "lines =
     [''- [T1](https://e.x/1) '' @ [CHR 0xE2, CHR 0x80, CHR 0x94] @ '' S1'',
      ''- [T2](https://e.x/2) '' @ [CHR 0xE2, CHR 0x80, CHR 0x94] @ '' S2'',
      ''- [T3]() '' @ [CHR 0xE2, CHR 0x80, CHR 0x94] @ '' '',
      ''- [T4](https://e.x/4) '' @ [CHR 0xE2, CHR 0x80, CHR 0x94] @ '' S4'',
      ''- [T5](https://e.x/5) '' @ [CHR 0xE2, CHR 0x80, CHR 0x94] @ '' S5'',
      ''- [T6](https://e.x/6) '' @ [CHR 0xE2, CHR 0x80, CHR 0x94] @ '' S6'']"
    by simp
  with digest have "?digest @ ''\<newline>'' =
     (''- [T1](https://e.x/1) '' @ [CHR 0xE2, CHR 0x80, CHR 0x94] @ '' S1\<newline>'' @
      ''- [T2](https://e.x/2) '' @ [CHR 0xE2, CHR 0x80, CHR 0x94] @ '' S2\<newline>'' @
      ''- [T3]() '' @ [CHR 0xE2, CHR 0x80, CHR 0x94] @ '' \<newline>'' @
      ''- [T4](https://e.x/4) '' @ [CHR 0xE2, CHR 0x80, CHR 0x94] @ '' S4\<newline>'' @
      ''- [T5](https://e.x/5) '' @ [CHR 0xE2, CHR 0x80, CHR 0x94] @ '' S5\<newline>'' @
      ''- [T6](https://e.x/6) '' @ [CHR 0xE2, CHR 0x80, CHR 0x94] @ '' S6'') @ ''\<newline>''"
    by simp
  then have "?digest =
      ''- [T1](https://e.x/1) '' @ [CHR 0xE2, CHR 0x80, CHR 0x94] @ '' S1\<newline>'' @
      ''- [T2](https://e.x/2) '' @ [CHR 0xE2, CHR 0x80, CHR 0x94] @ '' S2\<newline>'' @
      ''- [T3]() '' @ [CHR 0xE2, CHR 0x80, CHR 0x94] @ '' \<newline>'' @
      ''- [T4](https://e.x/4) '' @ [CHR 0xE2, CHR 0x80, CHR 0x94] @ '' S4\<newline>'' @
      ''- [T5](https://e.x/5) '' @ [CHR 0xE2, CHR 0x80, CHR 0x94] @ '' S5\<newline>'' @
      ''- [T6](https://e.x/6) '' @ [CHR 0xE2, CHR 0x80, CHR 0x94] @ '' S6''"
    by (simp only: append_same_eq)
  with post seven show ?thesis
    by simp
qed

text \<open>
  C3. For every successful search response whose \<open>organic\<close> list is empty or
  missing, \<open>search_company_info\<close> returns exactly the sentinel
  \<open>No relevant info found.\<close>, which is not the empty string that a failed
  provider call gives.
\<close>

theorem no_results_sentinel:
  assumes "requests_post P (search_request k (search_query c r)) = Inr response"
    and "raise_for_status response = None"
    and "json response = Inr body"
    and "body ''organic'' = None \<or> body ''organic'' = Some []"
  shows "fst (search_company_info k P c r s) = ''No relevant info found.'' \<and>
         fst (search_company_info k P c r s) \<noteq> ''''"
proof -
  have "fetch_results P (search_request k (search_query c r)) = Inr []"
    using assms by (auto simp: fetch_results_def dict_get_def)
  then show ?thesis
    by (simp add: search_company_info_def Let_def)
qed

theorem no_results_sentinel_witness:
  "requests_post \<lparr>requests_post = search_answers Map.empty,
                   completions_create = completion_down\<rparr>
     (search_request ''serper-key'' (search_query ''Acme'' ''Engineer'')) =
     Inr \<lparr>status_code = 200, http_error = Exception '''', json = Inr Map.empty\<rparr> \<and>
   fst (search_company_info ''serper-key''
          \<lparr>requests_post = search_answers Map.empty, completions_create = completion_down\<rparr>
          ''Acme'' ''Engineer'' init) = ''No relevant info found.''"
proof -
  let ?P = "\<lparr>requests_post = search_answers Map.empty, completions_create = completion_down\<rparr>"
  let ?response = "\<lparr>status_code = 200, http_error = Exception '''',
      json = Inr (Map.empty :: string \<rightharpoonup> item list)\<rparr>"
  have post: "requests_post ?P (search_request ''serper-key'' (search_query ''Acme'' ''Engineer'')) =
      Inr ?response"
    by (simp add: search_answers_def)
  from post no_results_sentinel [OF post, of Map.empty init] show ?thesis
    by (simp add: raise_for_status_def)
qed

text \<open>
  C4. For every non-empty pair of company name and job role,
  \<open>search_company_info\<close> issues exactly one search call: one POST to the search
  endpoint, whose body is \<open>{"q": query}\<close> with the query the company, a space, the
  role and the fixed words \<open>interview salary reviews company type\<close>.
\<close>

theorem one_search_call:
  assumes "c \<noteq> ''''" and "r \<noteq> ''''"
  shows "\<exists>req.
           network (snd (search_company_info k P c r s)) = network s @ [Search_call req] \<and>
           url req = ''https://google.serper.dev/search'' \<and>
           json_data req = [''q'' \<mapsto> c @ '' '' @ r @ '' interview salary reviews company type'']"
  by (rule exI [of _ "search_request k (search_query c r)"])
     (simp add: network_search search_request_def search_query_def)

theorem one_search_call_witness:
  "''Acme'' \<noteq> '''' \<and> ''Engineer'' \<noteq> '''' \<and>
   (\<exists>req.
      network (snd (search_company_info ''serper-key'' search_offline ''Acme'' ''Engineer'' init)) =
        [Search_call req] \<and>
      json_data req = [''q'' \<mapsto> ''Acme Engineer interview salary reviews company type''])"
proof -
  have c: "''Acme'' \<noteq> ''''" and r: "''Engineer'' \<noteq> ''''"
    by simp_all
  from one_search_call [OF c r, of "''serper-key''" search_offline init] c r
  show ?thesis by (auto simp: init_def)
qed

text \<open>
  C5. For every submitted request in which the company name or the job role is empty,
  the handler warns the user and stops without a network call: it makes no call beyond
  those already made, and the whole script run makes neither the search call nor the
  completion call.
\<close>

theorem empty_field_aborts:
  assumes "c = '''' \<or> r = ''''"
  shows "on_submit g k P c r s =
           (Stopped,
            s\<lparr>rendered := rendered s @
                 [Warning (warning_sign @ '' Please enter both a company name and a job role.'')]\<rparr>) \<and>
         fst (app environ P \<lparr>company_field = c, role_field = r, submitted = True\<rparr>) = Stopped \<and>
         network (snd (app environ P \<lparr>company_field = c, role_field = r, submitted = True\<rparr>)) = []"
  using assms by (auto simp: on_submit_rejected app_run st_def init_def)

theorem empty_field_aborts_witness:
  "on_submit ''groq-key'' ''serper-key'' search_offline ''Acme'' '''' init =
     (Stopped,
      \<lparr>rendered = [Warning (warning_sign @ '' Please enter both a company name and a job role.'')],
       network = []\<rparr>) \<and>
   network (snd (app [''GROQ_API_KEY'' \<mapsto> ''groq-key'', ''SERPER_API_KEY'' \<mapsto> ''serper-key'']
                   search_offline
                   \<lparr>company_field = ''Acme'', role_field = '''', submitted = True\<rparr>)) = []"
  using empty_field_aborts [of "''Acme''" "''''" "''groq-key''" "''serper-key''" search_offline init
      "[''GROQ_API_KEY'' \<mapsto> ''groq-key'', ''SERPER_API_KEY'' \<mapsto> ''serper-key'']"]
  by (simp add: init_def)

subsection \<open>Claims about the generation step and the handler\<close>

text \<open>
  C6. For every request whose digest is non-empty, \<open>generate_interview_guide\<close> is
  invoked exactly once: after the search call the handler makes one completion call and
  no other. The prompt it sends, as the content of the single user message, contains the
  company name, the job role and the digest as substrings.
\<close>

theorem guide_requested_once:
  assumes "c \<noteq> ''''" and "r \<noteq> ''''"
    and "facts_of k P c r = facts" and "facts \<noteq> ''''"
  shows "\<exists>content.
           network (snd (on_submit g k P c r s)) =
             network s @
               [Search_call (search_request k (search_query c r)),
                Completion_call g
                  \<lparr>model = ''llama-3.3-70b-versatile'',
                   messages = [[''role'' \<mapsto> ''user'', ''content'' \<mapsto> content]],
                   temperature = 0.6, max_tokens = 1024\<rparr>] \<and>
           sublist c content \<and> sublist r content \<and> sublist facts content"
proof (intro exI conjI)
  let ?content = "prompt c r facts"
  show "network (snd (on_submit g k P c r s)) =
      network s @
        [Search_call (search_request k (search_query c r)),
         Completion_call g
           \<lparr>model = ''llama-3.3-70b-versatile'',
            messages = [[''role'' \<mapsto> ''user'', ''content'' \<mapsto> ?content]],
            temperature = 0.6, max_tokens = 1024\<rparr>]"
    using assms
    by (simp add: on_submit_generated [where f = facts] Let_def network_generate chat_def)
  have "?content = (prompt_text_1 @ r @ prompt_text_2) @ c @
      (prompt_text_3 @ facts @ prompt_text_4 @ c @ prompt_text_5 @ r @ prompt_text_6 @ r @
       prompt_text_7)"
    by (simp add: prompt_def)
  then show "sublist c ?content"
    by (simp only: sublist_appendI)
  have "?content = prompt_text_1 @ r @
      (prompt_text_2 @ c @ prompt_text_3 @ facts @ prompt_text_4 @ c @ prompt_text_5 @ r @
       prompt_text_6 @ r @ prompt_text_7)"
    by (simp add: prompt_def)
  then show "sublist r ?content"
    by (simp only: sublist_appendI)
  have "?content = (prompt_text_1 @ r @ prompt_text_2 @ c @ prompt_text_3) @ facts @
      (prompt_text_4 @ c @ prompt_text_5 @ r @ prompt_text_6 @ r @ prompt_text_7)"
    by (simp add: prompt_def)
  then show "sublist facts ?content"
    by (simp only: sublist_appendI)
qed

theorem guide_requested_once_witness:
  "''Acme'' \<noteq> '''' \<and> ''Engineer'' \<noteq> '''' \<and>
   facts_of ''serper-key'' all_up ''Acme'' ''Engineer'' = two_hits_digest \<and>
   two_hits_digest \<noteq> '''' \<and>
   (\<exists>content.
      network (snd (on_submit ''groq-key'' ''serper-key'' all_up ''Acme'' ''Engineer'' init)) =
        [Search_call (search_request ''serper-key'' (search_query ''Acme'' ''Engineer'')),
         Completion_call ''groq-key''
           \<lparr>model = ''llama-3.3-70b-versatile'',
            messages = [[''role'' \<mapsto> ''user'', ''content'' \<mapsto> content]],
            temperature = 0.6, max_tokens = 1024\<rparr>] \<and>
      sublist ''Acme'' content \<and> sublist ''Engineer'' content \<and>
      sublist two_hits_digest content)"
proof -
  have c: "''Acme'' \<noteq> ''''" and r: "''Engineer'' \<noteq> ''''"
    by simp_all
  have facts: "facts_of ''serper-key'' all_up ''Acme'' ''Engineer'' = two_hits_digest"
    by (simp add: facts_of_two_hits all_up_def)
  from guide_requested_once [OF c r facts two_hits_digest_nonempty, of "''groq-key''" init]
    c r facts two_hits_digest_nonempty
  show ?thesis by (simp add: init_def)
qed

text \<open>
  C7. Whenever the completion provider call fails, \<open>generate_interview_guide\<close>
  returns the empty string. Whenever the guide it returns to the handler is the empty
  string, also after a successful completion whose content strips to nothing, the handler
  renders nothing for the guide: beyond the two progress indicators, the heading and the
  text of the digest, it shows only error messages, so no success message, no guide
  heading or text, and no download.
\<close>

theorem empty_guide_shows_nothing:
  "(completions_create P g (chat (prompt c r f)) = Inl e \<longrightarrow>
      fst (generate_interview_guide g P c r f s) = '''') \<and>
   (c \<noteq> '''' \<and> r \<noteq> '''' \<and> facts_of k P c r = f \<and> f \<noteq> '''' \<and>
    guide_of g P c r f = '''' \<longrightarrow>
      (\<exists>errors.
         rendered (snd (on_submit g k P c r s)) =
           rendered s @
             [Spinner (magnifying_glass @ '' Searching the web for company details...''),
              Subheader (globe @ '' Web Insights''),
              Markdown f,
              Spinner (brain @ '' Generating your AI-based interview preparation guide...'')] @
             errors \<and>
         (\<forall>ev \<in> set errors. \<exists>m. ev = Error m)) \<and>
      filter is_success (rendered (snd (on_submit g k P c r s))) = filter is_success (rendered s) \<and>
      filter is_download (rendered (snd (on_submit g k P c r s))) =
        filter is_download (rendered s))"
proof (intro conjI impI)
  assume "completions_create P g (chat (prompt c r f)) = Inl e"
  then show "fst (generate_interview_guide g P c r f s) = ''''"
    by (simp add: generate_interview_guide_def Let_def)
next
  assume h: "c \<noteq> '''' \<and> r \<noteq> '''' \<and> facts_of k P c r = f \<and> f \<noteq> '''' \<and>
    guide_of g P c r f = ''''"
  let ?s5 = "st (Spinner (brain @ '' Generating your AI-based interview preparation guide...''))
       (st (Markdown f)
         (st (Subheader (globe @ '' Web Insights''))
           (call (Search_call (search_request k (search_query c r)))
             (st (Spinner (magnifying_glass @ '' Searching the web for company details...'')) s))))"
  from h have final: "on_submit g k P c r s = (Finished, snd (generate_interview_guide g P c r f ?s5))"
    by (simp add: on_submit_generated [where f = f] Let_def)
  from rendered_generate [of g P c r f ?s5] obtain errors where
    errors: "rendered (snd (generate_interview_guide g P c r f ?s5)) = rendered ?s5 @ errors"
      "\<forall>ev \<in> set errors. \<exists>m. ev = Error m"
    by blast
  from final errors
  show "\<exists>errors.
      rendered (snd (on_submit g k P c r s)) =
        rendered s @
          [Spinner (magnifying_glass @ '' Searching the web for company details...''),
           Subheader (globe @ '' Web Insights''),
           Markdown f,
           Spinner (brain @ '' Generating your AI-based interview preparation guide...'')] @
          errors \<and>
      (\<forall>ev \<in> set errors. \<exists>m. ev = Error m)"
    by simp
  from errors(2) have "filter is_success errors = []" "filter is_download errors = []"
    by (auto simp: filter_empty_conv)
  with final errors(1)
  show "filter is_success (rendered (snd (on_submit g k P c r s))) = filter is_success (rendered s)"
    and "filter is_download (rendered (snd (on_submit g k P c r s))) =
      filter is_download (rendered s)"
    by simp_all
qed

theorem empty_guide_shows_nothing_witness:
  "completions_create guide_offline ''groq-key'' (chat (prompt ''Acme'' ''Engineer'' two_hits_digest)) =
     Inl (Exception ''Service unavailable'') \<and>
   fst (generate_interview_guide ''groq-key'' guide_offline ''Acme'' ''Engineer'' two_hits_digest init) = '''' \<and>
   facts_of ''serper-key'' guide_blank ''Acme'' ''Engineer'' = two_hits_digest \<and>
   guide_of ''groq-key'' guide_blank ''Acme'' ''Engineer'' two_hits_digest = '''' \<and>
   rendered (snd (on_submit ''groq-key'' ''serper-key'' guide_blank ''Acme'' ''Engineer'' init)) =
     [Spinner (magnifying_glass @ '' Searching the web for company details...''),
      Subheader (globe @ '' Web Insights''),
      Markdown two_hits_digest,
      Spinner (brain @ '' Generating your AI-based interview preparation guide...'')] \<and>
   filter is_success
     (rendered (snd (on_submit ''groq-key'' ''serper-key'' guide_offline ''Acme'' ''Engineer'' init))) = [] \<and>
   filter is_download
     (rendered (snd (on_submit ''groq-key'' ''serper-key'' guide_offline ''Acme'' ''Engineer'' init))) = []"
proof -
  let ?f = two_hits_digest
  have down: "completions_create guide_offline ''groq-key'' (chat (prompt ''Acme'' ''Engineer'' ?f)) =
      Inl (Exception ''Service unavailable'')"
    by (simp add: guide_offline_def completion_down_def)
  have facts: "facts_of ''serper-key'' guide_offline ''Acme'' ''Engineer'' = ?f"
    "facts_of ''serper-key'' guide_blank ''Acme'' ''Engineer'' = ?f"
    by (simp_all add: facts_of_two_hits guide_offline_def guide_blank_def)
  have guide: "guide_of ''groq-key'' guide_offline ''Acme'' ''Engineer'' ?f = ''''"
    "guide_of ''groq-key'' guide_blank ''Acme'' ''Engineer'' ?f = ''''"
    by (simp_all add: guide_of_down guide_of_answers [where content = "''  \<newline>''"] strip_examples
        guide_offline_def guide_blank_def)
  have blank: "snd (generate_interview_guide ''groq-key'' guide_blank ''Acme'' ''Engineer'' ?f s) =
      call (Completion_call ''groq-key'' (chat (prompt ''Acme'' ''Engineer'' ?f))) s" for s
    using strip_examples(2)
    by (simp add: generate_interview_guide_def guide_blank_def completion_answers_def
        completion_text_def Let_def)
  note offline = empty_guide_shows_nothing
    [of guide_offline "''groq-key''" "''Acme''" "''Engineer''" ?f "Exception ''Service unavailable''"
      init "''serper-key''"]
  note blanks = empty_guide_shows_nothing
    [of guide_blank "''groq-key''" "''Acme''" "''Engineer''" ?f "Exception ''Service unavailable''"
      init "''serper-key''"]
  have shown: "rendered (snd (on_submit ''groq-key'' ''serper-key'' guide_blank ''Acme'' ''Engineer'' init)) =
     [Spinner (magnifying_glass @ '' Searching the web for company details...''),
      Subheader (globe @ '' Web Insights''),
      Markdown ?f,
      Spinner (brain @ '' Generating your AI-based interview preparation guide...'')]"
    using facts(2) guide(2) two_hits_digest_nonempty
    by (simp add: on_submit_generated [where f = ?f] Let_def blank init_def)
  from offline blanks down facts guide two_hits_digest_nonempty shown show ?thesis
    by (simp add: init_def)
qed

text \<open>
  C8. For every request that produces a non-empty guide, the handler offers one
  download, after the success message and the guide: its file name is the company name,
  an underscore, the job role and \<open>_Interview_Guide.txt\<close>, from the raw input
  strings, and its content is the guide as \<open>generate_interview_guide\<close> returned it.
\<close>

theorem download_offered:
  assumes "c \<noteq> ''''" and "r \<noteq> ''''"
    and "facts_of k P c r = facts" and "facts \<noteq> ''''"
    and "guide_of g P c r facts = guide" and "guide \<noteq> ''''"
  shows "on_submit g k P c r s =
           (Finished,
            \<lparr>rendered = rendered s @
               [Spinner (magnifying_glass @ '' Searching the web for company details...''),
                Subheader (globe @ '' Web Insights''),
                Markdown facts,
                Spinner (brain @ '' Generating your AI-based interview preparation guide...''),
                Success (check_mark @ '' Interview Preparation Guide Generated!''),
                Subheader (blue_book @ '' AI Interview Guide''),
                Markdown guide,
                Download_button (inbox_tray @ '' Download Guide as Text'') guide
                  (c @ ''_'' @ r @ ''_Interview_Guide.txt'') ''text/plain''],
             network = network s @
               [Search_call (search_request k (search_query c r)),
                Completion_call g (chat (prompt c r facts))]\<rparr>) \<and>
         guide = fst (generate_interview_guide g P c r facts s')"
  using assms
  by (simp add: on_submit_generated [where f = facts] Let_def fst_generate st_def call_def
      download_name_def)

theorem download_offered_witness:
  "facts_of ''serper-key'' all_up ''Acme'' ''Engineer'' = two_hits_digest \<and>
   guide_of ''groq-key'' all_up ''Acme'' ''Engineer'' two_hits_digest = ''## Guide text'' \<and>
   rendered (snd (on_submit ''groq-key'' ''serper-key'' all_up ''Acme'' ''Engineer'' init)) =
     [Spinner (magnifying_glass @ '' Searching the web for company details...''),
      Subheader (globe @ '' Web Insights''),
      Markdown two_hits_digest,
      Spinner (brain @ '' Generating your AI-based interview preparation guide...''),
      Success (check_mark @ '' Interview Preparation Guide Generated!''),
      Subheader (blue_book @ '' AI Interview Guide''),
      Markdown ''## Guide text'',
      Download_button (inbox_tray @ '' Download Guide as Text'') ''## Guide text''
        ''Acme_Engineer_Interview_Guide.txt'' ''text/plain'']"
proof -
  have c: "''Acme'' \<noteq> ''''" and r: "''Engineer'' \<noteq> ''''" and g: "''## Guide text'' \<noteq> ''''"
    by simp_all
  have facts: "facts_of ''serper-key'' all_up ''Acme'' ''Engineer'' = two_hits_digest"
    by (simp add: facts_of_two_hits all_up_def)
  have guide: "guide_of ''groq-key'' all_up ''Acme'' ''Engineer'' two_hits_digest = ''## Guide text''"
    by (simp add: guide_of_answers [where content = "''## Guide text''"] strip_examples all_up_def)
  from download_offered [OF c r facts two_hits_digest_nonempty guide g, of init] facts guide
  show ?thesis by (simp add: init_def)
qed

subsection \<open>Claims about the whole script\<close>

text \<open>
  C9. At the start of the script, if either of the two API keys is absent from the
  environment or is the empty string, the script reports the configuration error and
  halts: it renders only that error, no form, and makes no call. If both are present
  and non-empty, startup proceeds: the page with the form is rendered, and a submitted
  form is handled.
\<close>

theorem credential_gate:
  "(environ ''GROQ_API_KEY'' = None \<or> environ ''GROQ_API_KEY'' = Some '''' \<or>
    environ ''SERPER_API_KEY'' = None \<or> environ ''SERPER_API_KEY'' = Some '''' \<longrightarrow>
      app environ P form =
        (Stopped,
         \<lparr>rendered = [Error (cross_mark @ '' Missing API keys! Please check your .env file.'')],
          network = []\<rparr>)) \<and>
   (environ ''GROQ_API_KEY'' = Some g \<and> g \<noteq> '''' \<and>
    environ ''SERPER_API_KEY'' = Some k \<and> k \<noteq> '''' \<longrightarrow>
      rendered (page init) =
        [Page_config ''Interview Prep AI'' robot_face ''wide'',
         Title (robot_face @ '' AI Interview Preparation Assistant''),
         Markdown ''This app used to know details about the Job and company reviews'',
         Divider,
         Form ''input_form'',
         Text_input (office_building @ '' Company Name'') ''e.g., Google'',
         Text_input (briefcase @ '' Job Role'') ''e.g., Data Scientist'',
         Form_submit_button ''Generate Interview Guide''] \<and>
      app environ P form =
        (if submitted form then
           on_submit g k P (company_field form) (role_field form) (page init)
         else (Finished, page init)))"
proof (intro conjI impI)
  assume "environ ''GROQ_API_KEY'' = None \<or> environ ''GROQ_API_KEY'' = Some '''' \<or>
    environ ''SERPER_API_KEY'' = None \<or> environ ''SERPER_API_KEY'' = Some ''''"
  then have "py_not (environ ''GROQ_API_KEY'') \<or> py_not (environ ''SERPER_API_KEY'')"
    by (auto simp: py_not_def)
  then show "app environ P form =
      (Stopped,
       \<lparr>rendered = [Error (cross_mark @ '' Missing API keys! Please check your .env file.'')],
        network = []\<rparr>)"
    by (auto simp: app_run st_def init_def)
next
  assume keys: "environ ''GROQ_API_KEY'' = Some g \<and> g \<noteq> '''' \<and>
    environ ''SERPER_API_KEY'' = Some k \<and> k \<noteq> ''''"
  show "rendered (page init) =
      [Page_config ''Interview Prep AI'' robot_face ''wide'',
       Title (robot_face @ '' AI Interview Preparation Assistant''),
       Markdown ''This app used to know details about the Job and company reviews'',
       Divider,
       Form ''input_form'',
       Text_input (office_building @ '' Company Name'') ''e.g., Google'',
       Text_input (briefcase @ '' Job Role'') ''e.g., Data Scientist'',
       Form_submit_button ''Generate Interview Guide'']"
    by (simp add: page_def Let_def init_def)
  from keys show "app environ P form =
      (if submitted form then
         on_submit g k P (company_field form) (role_field form) (page init)
       else (Finished, page init))"
    by (simp add: app_run py_not_def)
qed

theorem credential_gate_witness:
  "app [''GROQ_API_KEY'' \<mapsto> ''groq-key''] all_up
     \<lparr>company_field = ''Acme'', role_field = ''Engineer'', submitted = True\<rparr> =
     (Stopped,
      \<lparr>rendered = [Error (cross_mark @ '' Missing API keys! Please check your .env file.'')],
       network = []\<rparr>) \<and>
   app [''GROQ_API_KEY'' \<mapsto> ''groq-key'', ''SERPER_API_KEY'' \<mapsto> ''''] all_up
     \<lparr>company_field = ''Acme'', role_field = ''Engineer'', submitted = True\<rparr> =
     (Stopped,
      \<lparr>rendered = [Error (cross_mark @ '' Missing API keys! Please check your .env file.'')],
       network = []\<rparr>) \<and>
   app [''GROQ_API_KEY'' \<mapsto> ''groq-key'', ''SERPER_API_KEY'' \<mapsto> ''serper-key''] all_up
     \<lparr>company_field = '''', role_field = '''', submitted = False\<rparr> =
     (Finished, page init)"
  using
    credential_gate [of "[''GROQ_API_KEY'' \<mapsto> ''groq-key'']" all_up
      "\<lparr>company_field = ''Acme'', role_field = ''Engineer'', submitted = True\<rparr>"]
    credential_gate [of "[''GROQ_API_KEY'' \<mapsto> ''groq-key'', ''SERPER_API_KEY'' \<mapsto> '''']" all_up
      "\<lparr>company_field = ''Acme'', role_field = ''Engineer'', submitted = True\<rparr>"]
    credential_gate [of "[''GROQ_API_KEY'' \<mapsto> ''groq-key'', ''SERPER_API_KEY'' \<mapsto> ''serper-key'']"
      all_up "\<lparr>company_field = '''', role_field = '''', submitted = False\<rparr>"
      "''groq-key''" "''serper-key''"]
  by simp

text \<open>
  C10. Validation rejects only fields that are exactly empty: the handler stops at the
  validation warning if and only if the company name or the job role is the empty
  string. A field of whitespace only, not empty but blank once stripped, passes, and the
  search call is issued with the strings as entered, untrimmed, in the query.
\<close>

theorem blank_fields_pass:
  "(on_submit g k P c r s =
      (Stopped,
       st (Warning (warning_sign @ '' Please enter both a company name and a job role.'')) s)
      \<longleftrightarrow> c = '''' \<or> r = '''') \<and>
   (c \<noteq> '''' \<and> r \<noteq> '''' \<and> (strip c = '''' \<or> strip r = '''') \<longrightarrow>
      (\<exists>req later.
         network (snd (on_submit g k P c r s)) = network s @ Search_call req # later \<and>
         json_data req = [''q'' \<mapsto> c @ '' '' @ r @ '' interview salary reviews company type'']))"
proof (intro conjI impI)
  show "on_submit g k P c r s =
      (Stopped,
       st (Warning (warning_sign @ '' Please enter both a company name and a job role.'')) s)
      \<longleftrightarrow> c = '''' \<or> r = ''''"
  proof
    assume stopped: "on_submit g k P c r s =
      (Stopped,
       st (Warning (warning_sign @ '' Please enter both a company name and a job role.'')) s)"
    show "c = '''' \<or> r = ''''"
    proof (rule ccontr)
      assume "\<not> (c = '''' \<or> r = '''')"
      then have filled: "c \<noteq> ''''" "r \<noteq> ''''"
        by simp_all
      have "network (snd (on_submit g k P c r s)) \<noteq> network s"
      proof (cases "facts_of k P c r = ''''")
        case True
        with filled show ?thesis
          by (simp add: on_submit_search_failed network_search)
      next
        case False
        with filled show ?thesis
          by (simp add: on_submit_generated [where f = "facts_of k P c r"] Let_def
              network_generate)
      qed
      with stopped show False
        by simp
    qed
  next
    assume "c = '''' \<or> r = ''''"
    then show "on_submit g k P c r s =
      (Stopped,
       st (Warning (warning_sign @ '' Please enter both a company name and a job role.'')) s)"
      by (rule on_submit_rejected)
  qed
next
  assume blank: "c \<noteq> '''' \<and> r \<noteq> '''' \<and> (strip c = '''' \<or> strip r = '''')"
  let ?req = "search_request k (search_query c r)"
  have "\<exists>later. network (snd (on_submit g k P c r s)) = network s @ Search_call ?req # later"
  proof (cases "facts_of k P c r = ''''")
    case True
    with blank show ?thesis
      by (simp add: on_submit_search_failed network_search)
  next
    case False
    with blank show ?thesis
      by (simp add: on_submit_generated [where f = "facts_of k P c r"] Let_def
          network_generate)
  qed
  moreover have "json_data ?req =
      [''q'' \<mapsto> c @ '' '' @ r @ '' interview salary reviews company type'']"
    by (simp add: search_request_def search_query_def)
  ultimately show "\<exists>req later.
      network (snd (on_submit g k P c r s)) = network s @ Search_call req # later \<and>
      json_data req = [''q'' \<mapsto> c @ '' '' @ r @ '' interview salary reviews company type'']"
    by blast
qed

theorem blank_fields_pass_witness:
  "''  '' \<noteq> '''' \<and> [CHR 0x09] \<noteq> '''' \<and> strip ''  '' = '''' \<and> strip [CHR 0x09] = '''' \<and>
   on_submit ''groq-key'' ''serper-key'' search_offline ''  '' [CHR 0x09] init \<noteq>
     (Stopped,
      st (Warning (warning_sign @ '' Please enter both a company name and a job role.'')) init) \<and>
   (\<exists>req later.
      network (snd (on_submit ''groq-key'' ''serper-key'' search_offline ''  '' [CHR 0x09] init)) =
        Search_call req # later \<and>
      json_data req =
        [''q'' \<mapsto> ''  '' @ '' '' @ [CHR 0x09] @ '' interview salary reviews company type''])"
proof -
  have blank: "strip ''  '' = ''''" "strip [CHR 0x09] = ''''"
    by code_simp+
  from blank_fields_pass
    [of "''groq-key''" "''serper-key''" search_offline "''  ''" "[CHR 0x09]" init]
    blank
  show ?thesis by (simp add: init_def)
qed

end
